theory Spec2Isabelle
  imports Complex_Main "HOL-Library.Word"
begin

unbundle bit_operations_syntax

section \<open>Configuration and data model (memory_monitor.h)\<close>

text \<open>
  The target is the ATmega328P: data pointers and \<open>uint16_t\<close> are 16 bits wide, \<open>int\<close> is
  16 bits wide as well, so every \<open>uint16_t\<close> expression of the source is computed modulo
  \<open>2 ^ 16\<close>. Addresses and counters are therefore 16-bit words, bytes are 8-bit words.
\<close>

type_synonym u8 = "8 word"
type_synonym u16 = "16 word"

definition MAX_HEAP_ALLOCATIONS :: nat where
  "MAX_HEAP_ALLOCATIONS = 32"

definition STACK_SENTINEL :: u8 where
  "STACK_SENTINEL = 0xAA"

definition COLLISION_SAFETY_MARGIN :: u16 where
  "COLLISION_SAFETY_MARGIN = 128"

text \<open>\<open>RAMEND\<close> comes from the device header; memory_monitor.h documents it as \<open>0x08FF\<close>.\<close>

definition RAMEND :: u16 where
  "RAMEND = 0x08FF"

text \<open>\<open>struct AllocationEntry\<close>; the field \<open>size\<close> is written \<open>size_e\<close>.\<close>

record AllocationEntry =
  ptr :: u16
  size_e :: u16
  active :: u8

text \<open>\<open>struct MemoryStats\<close>, the report; its fields carry the prefix \<open>stats_\<close>.\<close>

record MemoryStats =
  stats_total_sram :: u16
  stats_static_data :: u16
  stats_static_bss :: u16
  stats_heap_used :: u16
  stats_heap_total_allocated :: u16
  stats_heap_total_freed :: u16
  stats_alloc_count :: u16
  stats_free_count :: u16
  stats_current_stack_usage :: u16
  stats_max_stack_usage :: u16
  stats_free_ram :: u16
  stats_fragmentation_ratio :: real
  stats_collision_warning :: u8

text \<open>The anonymous struct behind \<open>s_mem_state\<close>.\<close>

record mem_state =
  init_stack_pointer :: u16
  max_stack_usage :: u16
  heap_used :: u16
  heap_total_allocated :: u16
  heap_total_freed :: u16
  alloc_count :: u16
  free_count :: u16
  collision_warning :: u8

text \<open>
  Everything the monitor reads or writes: its two statics, the status register and the two
  halves of the stack pointer, the allocator's break value \<open>__brkval\<close>, the addresses of the
  linker symbols, and the SRAM contents. The statics live in \<open>.bss\<close>, below the heap, and are
  kept apart from \<open>ram\<close>.
\<close>

record machine =
  s_alloc_table :: "AllocationEntry list"
  s_mem_state :: mem_state
  SREG :: u8
  SPL :: u8
  SPH :: u8
  brkval :: u16
  heap_start :: u16
  data_start :: u16
  data_end :: u16
  bss_start :: u16
  bss_end :: u16
  ram :: "u16 \<Rightarrow> u8"

section \<open>Stack pointer access\<close>

text \<open>The \<open>cli\<close> instruction clears the global interrupt enable flag, bit 7 of \<open>SREG\<close>.\<close>

definition cli :: "machine \<Rightarrow> machine" where
  "cli m = m\<lparr>SREG := unset_bit 7 (SREG m)\<rparr>"

definition interrupts_enabled :: "machine \<Rightarrow> bool" where
  "interrupts_enabled m = bit (SREG m) 7"

text \<open>The 16-bit value held by the register pair \<open>SPH:SPL\<close>.\<close>

definition read_SP :: "machine \<Rightarrow> u16" where
  "read_SP m = (let sp = ucast (SPL m); sp = sp OR push_bit 8 (ucast (SPH m)) in sp)"

text \<open>
  \<open>mem_monitor_get_stack_pointer\<close> (memory_monitor.cpp, lines 63-79) is a straight line of
  five hardware accesses: \<open>sreg = SREG\<close> (line 68), \<open>cli\<close> (line 69), \<open>sp = SPL\<close> (line 72),
  \<open>sp |= ((uint16_t)SPH << 8)\<close> (line 73) and \<open>SREG = sreg\<close> (line 76). Each access is one
  operation on the two locals and the machine; running the body yields, next to the final
  locals and machine, the list of the operations executed, in order, each with the machine
  state it executed in. Interrupts are delivered in exactly the states whose interrupt
  enable flag is set.
\<close>

datatype gsp_op = SaveSREG | CLI | LoadSPL | LoadSPH | RestoreSREG

record gsp_locals =
  l_sreg :: u8
  l_sp :: u16

fun gsp_step :: "gsp_op \<Rightarrow> gsp_locals \<Rightarrow> machine \<Rightarrow> gsp_locals \<times> machine" where
  "gsp_step SaveSREG l m = (l\<lparr>l_sreg := SREG m\<rparr>, m)"
| "gsp_step CLI l m = (l, cli m)"
| "gsp_step LoadSPL l m = (l\<lparr>l_sp := ucast (SPL m)\<rparr>, m)"
| "gsp_step LoadSPH l m = (l\<lparr>l_sp := l_sp l OR push_bit 8 (ucast (SPH m))\<rparr>, m)"
| "gsp_step RestoreSREG l m = (l, m\<lparr>SREG := l_sreg l\<rparr>)"

fun gsp_run ::
  "gsp_op list \<Rightarrow> gsp_locals \<Rightarrow> machine \<Rightarrow> (gsp_op \<times> machine) list \<times> gsp_locals \<times> machine" where
  "gsp_run [] l m = ([], l, m)"
| "gsp_run (op # ops) l m =
     (let (l1, m1) = gsp_step op l m;
          (tr, l2, m2) = gsp_run ops l1 m1
      in ((op, m) # tr, l2, m2))"

definition gsp_body :: "gsp_op list" where
  "gsp_body = [SaveSREG, CLI, LoadSPL, LoadSPH, RestoreSREG]"

text \<open>The locals are not initialized by the source; both are assigned before they are read.\<close>

definition gsp_locals0 :: gsp_locals where
  "gsp_locals0 = \<lparr>l_sreg = 0, l_sp = 0\<rparr>"

text \<open>
  The function: the run of its body from the caller's machine. Its result has three parts,
  the operations executed with their states, the value returned (\<open>return sp\<close>, line 78) and
  the machine on return. A caller binds the last two.
\<close>

definition mem_monitor_get_stack_pointer ::
  "machine \<Rightarrow> (gsp_op \<times> machine) list \<times> u16 \<times> machine" where
  "mem_monitor_get_stack_pointer m =
     (let (tr, l, m') = gsp_run gsp_body gsp_locals0 m in (tr, l_sp l, m'))"

text \<open>The expression \<open>__brkval ? __brkval : &__heap_start\<close>, bound to \<open>heap_end\<close> at each use.\<close>

definition heap_end :: "machine \<Rightarrow> u16" where
  "heap_end m = (if brkval m \<noteq> 0 then brkval m else heap_start m)"

section \<open>Initialization\<close>

text \<open>
  \<open>mem_monitor_init\<close> (lines 85-106): both statics are zeroed, the stack pointer is recorded,
  and the loop of lines 103-105 stores the sentinel from the heap end up to, but not
  including, the stack pointer.
\<close>

function fill_sentinel :: "(u16 \<Rightarrow> u8) \<Rightarrow> u16 \<Rightarrow> u16 \<Rightarrow> (u16 \<Rightarrow> u8)" where
  "fill_sentinel mem p stack_ptr =
     (if p < stack_ptr then fill_sentinel (mem(p := STACK_SENTINEL)) (p + 1) stack_ptr
      else mem)"
  by pat_completeness auto
termination
proof (relation "measure (\<lambda>(mem, p, stack_ptr). unat stack_ptr - unat p)")
  show "wf (measure (\<lambda>(mem, p, stack_ptr). unat stack_ptr - unat p))"
    by simp
next
  fix mem :: "u16 \<Rightarrow> u8" and p stack_ptr :: u16
  assume "p < stack_ptr"
  then have "unat (p + 1) = unat p + 1" and "unat p < unat stack_ptr"
    by unat_arith+
  then show "((mem(p := STACK_SENTINEL), p + 1, stack_ptr), (mem, p, stack_ptr))
      \<in> measure (\<lambda>(mem, p, stack_ptr). unat stack_ptr - unat p)"
    by simp
qed

declare fill_sentinel.simps [simp del]

definition zero_entry :: AllocationEntry where
  "zero_entry = \<lparr>ptr = 0, size_e = 0, active = 0\<rparr>"

definition zero_state :: mem_state where
  "zero_state = \<lparr>init_stack_pointer = 0, max_stack_usage = 0, heap_used = 0,
     heap_total_allocated = 0, heap_total_freed = 0, alloc_count = 0, free_count = 0,
     collision_warning = 0\<rparr>"

definition mem_monitor_init :: "machine \<Rightarrow> machine" where
  "mem_monitor_init m =
     (let m1 = m\<lparr>s_alloc_table := replicate MAX_HEAP_ALLOCATIONS zero_entry\<rparr>;
          m2 = m1\<lparr>s_mem_state := zero_state\<rparr>;
          (sp, m3) = snd (mem_monitor_get_stack_pointer m2);
          m4 = m3\<lparr>s_mem_state := (s_mem_state m3)\<lparr>init_stack_pointer := sp\<rparr>\<rparr>;
          he = heap_end m4;
          (stack_ptr, m5) = snd (mem_monitor_get_stack_pointer m4)
      in m5\<lparr>ram := fill_sentinel (ram m5) he stack_ptr\<rparr>)"

section \<open>Heap tracking\<close>

text \<open>
  \<open>mem_monitor_track_alloc\<close> (lines 117-139) and \<open>mem_monitor_track_free\<close> (lines 145-165).
  The slot index \<open>i\<close> is a \<open>uint8_t\<close> that stays below 33; it is a natural number here.
  Both loops return from inside the body at the first slot that qualifies, and fall out
  of the loop without any effect when no slot does.
\<close>

function track_alloc_loop :: "machine \<Rightarrow> u16 \<Rightarrow> u16 \<Rightarrow> nat \<Rightarrow> machine" where
  "track_alloc_loop m p sz i =
     (if i < MAX_HEAP_ALLOCATIONS then
        (if active (s_alloc_table m ! i) = 0 then
           (let tbl = (s_alloc_table m)
                  [i := (s_alloc_table m ! i)\<lparr>ptr := p, size_e := sz, active := 1\<rparr>];
                st = s_mem_state m
            in m\<lparr>s_alloc_table := tbl,
                 s_mem_state := st\<lparr>heap_used := heap_used st + sz,
                   heap_total_allocated := heap_total_allocated st + sz,
                   alloc_count := alloc_count st + 1\<rparr>\<rparr>)
         else track_alloc_loop m p sz (i + 1))
      else m)"
  by pat_completeness auto
termination
  by (relation "measure (\<lambda>(m, p, sz, i). MAX_HEAP_ALLOCATIONS - i)") auto

declare track_alloc_loop.simps [simp del]

definition mem_monitor_track_alloc :: "machine \<Rightarrow> u16 \<Rightarrow> u16 \<Rightarrow> machine" where
  "mem_monitor_track_alloc m p sz = (if p = 0 then m else track_alloc_loop m p sz 0)"

function track_free_loop :: "machine \<Rightarrow> u16 \<Rightarrow> nat \<Rightarrow> machine" where
  "track_free_loop m p i =
     (if i < MAX_HEAP_ALLOCATIONS then
        (if active (s_alloc_table m ! i) \<noteq> 0 \<and> ptr (s_alloc_table m ! i) = p then
           (let e = s_alloc_table m ! i;
                st = s_mem_state m
            in m\<lparr>s_mem_state := st\<lparr>heap_used := heap_used st - size_e e,
                   heap_total_freed := heap_total_freed st + size_e e,
                   free_count := free_count st + 1\<rparr>,
                 s_alloc_table := (s_alloc_table m)[i := e\<lparr>active := 0\<rparr>]\<rparr>)
         else track_free_loop m p (i + 1))
      else m)"
  by pat_completeness auto
termination
  by (relation "measure (\<lambda>(m, p, i). MAX_HEAP_ALLOCATIONS - i)") auto

declare track_free_loop.simps [simp del]

definition mem_monitor_track_free :: "machine \<Rightarrow> u16 \<Rightarrow> machine" where
  "mem_monitor_track_free m p = (if p = 0 then m else track_free_loop m p 0)"

section \<open>Stack monitoring\<close>

text \<open>
  \<open>scan_stack_usage\<close> (lines 178-192): the \<open>while\<close> loop of line 184 moves \<open>scan_ptr\<close> upwards
  from the heap end as long as it finds the sentinel and is below \<open>RAMEND\<close>.
\<close>

function scan_loop :: "(u16 \<Rightarrow> u8) \<Rightarrow> u16 \<Rightarrow> u16" where
  "scan_loop mem scan_ptr =
     (if mem scan_ptr = STACK_SENTINEL \<and> scan_ptr < RAMEND then scan_loop mem (scan_ptr + 1)
      else scan_ptr)"
  by pat_completeness auto
termination
proof (relation "measure (\<lambda>(mem, scan_ptr). unat RAMEND - unat scan_ptr)")
  show "wf (measure (\<lambda>(mem, scan_ptr). unat RAMEND - unat scan_ptr))"
    by simp
next
  fix mem :: "u16 \<Rightarrow> u8" and scan_ptr :: u16
  assume "mem scan_ptr = STACK_SENTINEL \<and> scan_ptr < RAMEND"
  then have "unat (scan_ptr + 1) = unat scan_ptr + 1" and "unat scan_ptr < unat RAMEND"
    by unat_arith+
  then show "((mem, scan_ptr + 1), (mem, scan_ptr))
      \<in> measure (\<lambda>(mem, scan_ptr). unat RAMEND - unat scan_ptr)"
    by simp
qed

declare scan_loop.simps [simp del]

definition scan_stack_usage :: "machine \<Rightarrow> u16" where
  "scan_stack_usage m =
     (let scan_ptr = scan_loop (ram m) (heap_end m);
          max_usage = RAMEND - scan_ptr
      in max_usage)"

definition mem_monitor_get_current_stack_usage :: "machine \<Rightarrow> u16 \<times> machine" where
  "mem_monitor_get_current_stack_usage m =
     (let (current_sp, m1) = snd (mem_monitor_get_stack_pointer m)
      in (RAMEND - current_sp, m1))"

definition mem_monitor_get_max_stack_usage :: "machine \<Rightarrow> u16" where
  "mem_monitor_get_max_stack_usage m = max_stack_usage (s_mem_state m)"

definition mem_monitor_get_free_stack_space :: "machine \<Rightarrow> u16 \<times> machine" where
  "mem_monitor_get_free_stack_space m =
     (let (current_sp, m1) = snd (mem_monitor_get_stack_pointer m);
          he = heap_end m1
      in if current_sp > he then (current_sp - he, m1) else (0, m1))"

section \<open>Heap analysis\<close>

definition mem_monitor_get_heap_used :: "machine \<Rightarrow> u16" where
  "mem_monitor_get_heap_used m = heap_used (s_mem_state m)"

text \<open>
  The result is a \<open>float\<close>. Its only computed value is a 16-bit integer divided by 32: the
  conversion of an integer below \<open>2 ^ 24\<close> and the division by a power of two are exact in
  binary32, and so is the comparison with \<open>1.0f\<close>. The real number returned here is the
  value of that float.
\<close>

definition mem_monitor_get_fragmentation_ratio :: "machine \<Rightarrow> real" where
  "mem_monitor_get_fragmentation_ratio m =
     (let st = s_mem_state m;
          total_heap = heap_end m - heap_start m;
          total_free = total_heap - heap_used st
      in if total_free = 0 \<or> alloc_count st = 0 then 0
         else if alloc_count st > free_count st + 5 then
           (let frag = real (unat (alloc_count st - free_count st)) / real MAX_HEAP_ALLOCATIONS
            in if frag > 1 then 1 else frag)
         else 0)"

section \<open>Collision detection\<close>

text \<open>
  \<open>mem_monitor_check_collision\<close> (lines 264-278); \<open>gap\<close> is a \<open>uint16_t\<close>, the difference is
  taken modulo \<open>2 ^ 16\<close>.
\<close>

definition mem_monitor_check_collision :: "machine \<Rightarrow> u8 \<times> machine" where
  "mem_monitor_check_collision m =
     (let (current_sp, m1) = snd (mem_monitor_get_stack_pointer m);
          he = heap_end m1;
          gap = current_sp - he
      in if gap < COLLISION_SAFETY_MARGIN
         then (1, m1\<lparr>s_mem_state := (s_mem_state m1)\<lparr>collision_warning := 1\<rparr>\<rparr>)
         else (0, m1\<lparr>s_mem_state := (s_mem_state m1)\<lparr>collision_warning := 0\<rparr>\<rparr>))"

section \<open>Update and statistics\<close>

definition mem_monitor_update :: "machine \<Rightarrow> machine" where
  "mem_monitor_update m =
     (let max_stack = scan_stack_usage m;
          m1 = (if max_stack > max_stack_usage (s_mem_state m)
                then m\<lparr>s_mem_state := (s_mem_state m)\<lparr>max_stack_usage := max_stack\<rparr>\<rparr>
                else m)
      in snd (mem_monitor_check_collision m1))"

text \<open>
  \<open>mem_monitor_get_stats\<close> fills the structure behind its argument and does nothing for a
  null argument: the argument is \<open>None\<close> for \<open>NULL\<close>, and the result is the structure
  afterwards.
\<close>

definition mem_monitor_get_stats ::
  "machine \<Rightarrow> MemoryStats option \<Rightarrow> MemoryStats option \<times> machine" where
  "mem_monitor_get_stats m stats =
     (case stats of
        None \<Rightarrow> (None, m)
      | Some _ \<Rightarrow>
         (let data_size = data_end m - data_start m;
              bss_size = bss_end m - bss_start m;
              st = s_mem_state m;
              (cur, m1) = mem_monitor_get_current_stack_usage m;
              (free, m2) = mem_monitor_get_free_stack_space m1;
              frag = mem_monitor_get_fragmentation_ratio m2
          in (Some \<lparr>stats_total_sram = RAMEND - 0x0100 + 1,
                stats_static_data = data_size,
                stats_static_bss = bss_size,
                stats_heap_used = heap_used st,
                stats_heap_total_allocated = heap_total_allocated st,
                stats_heap_total_freed = heap_total_freed st,
                stats_alloc_count = alloc_count st,
                stats_free_count = free_count st,
                stats_current_stack_usage = cur,
                stats_max_stack_usage = max_stack_usage st,
                stats_free_ram = free,
                stats_fragmentation_ratio = frag,
                stats_collision_warning = collision_warning (s_mem_state m2)\<rparr>, m2)))"

section \<open>Vocabulary of the claims\<close>

subsection \<open>The ledger and its call sequences\<close>

definition is_active :: "AllocationEntry \<Rightarrow> bool" where
  "is_active e = (active e \<noteq> 0)"

definition active_slots :: "machine \<Rightarrow> nat" where
  "active_slots m = length (filter is_active (s_alloc_table m))"

definition active_bytes :: "machine \<Rightarrow> u16" where
  "active_bytes m = sum_list (map size_e (filter is_active (s_alloc_table m)))"

definition table_full :: "machine \<Rightarrow> bool" where
  "table_full m =
     list_all (\<lambda>i. is_active (s_alloc_table m ! i)) [0..<MAX_HEAP_ALLOCATIONS]"

definition is_tracked :: "machine \<Rightarrow> u16 \<Rightarrow> bool" where
  "is_tracked m p =
     list_ex (\<lambda>i. is_active (s_alloc_table m ! i) \<and> ptr (s_alloc_table m ! i) = p)
       [0..<MAX_HEAP_ALLOCATIONS]"

definition ledger_ok :: "machine \<Rightarrow> bool" where
  "ledger_ok m =
     (let st = s_mem_state m
      in length (s_alloc_table m) = MAX_HEAP_ALLOCATIONS \<and>
         heap_used st = heap_total_allocated st - heap_total_freed st \<and>
         of_nat (active_slots m) = alloc_count st - free_count st \<and>
         active_bytes m = heap_used st)"

datatype ledger_call = Alloc u16 u16 | Free u16

fun ledger_step :: "ledger_call \<Rightarrow> machine \<Rightarrow> machine" where
  "ledger_step (Alloc p sz) m = mem_monitor_track_alloc m p sz"
| "ledger_step (Free p) m = mem_monitor_track_free m p"

fun run_ledger :: "ledger_call list \<Rightarrow> machine \<Rightarrow> machine" where
  "run_ledger [] m = m"
| "run_ledger (c # cs) m = run_ledger cs (ledger_step c m)"

subsection \<open>Stack activity between updates\<close>

text \<open>
  \<open>with_sp\<close> loads the stack pointer registers. Stack growth stores bytes into SRAM and
  lowers the stack pointer; shrinking raises the stack pointer and leaves the bytes where
  they are. A sequence of monitor updates interleaved with stack activity is a list of
  events.
\<close>

definition with_sp :: "machine \<Rightarrow> u16 \<Rightarrow> machine" where
  "with_sp m sp = m\<lparr>SPL := ucast sp, SPH := ucast (drop_bit 8 sp)\<rparr>"

datatype stack_event = Rescan | StackWrite u16 u8 | MoveSP u16

fun stack_step :: "stack_event \<Rightarrow> machine \<Rightarrow> machine" where
  "stack_step Rescan m = mem_monitor_update m"
| "stack_step (StackWrite a v) m = m\<lparr>ram := (ram m)(a := v)\<rparr>"
| "stack_step (MoveSP sp) m = with_sp m sp"

fun run_stack :: "stack_event list \<Rightarrow> machine \<Rightarrow> machine" where
  "run_stack [] m = m"
| "run_stack (e # es) m = run_stack es (stack_step e m)"



abbreviation hwm :: "machine \<Rightarrow> u16" where
  "hwm m \<equiv> max_stack_usage (s_mem_state m)"

subsection \<open>The fragmentation policy as the specification words it\<close>

text \<open>
  Section 4.4 of the specification compares \<open>allocate_count - free_count\<close> with
  \<open>free_count + threshold\<close>. This definition follows that sentence; the source's function
  is \<open>mem_monitor_get_fragmentation_ratio\<close> above.
\<close>

definition spec_fragmentation_ratio :: "machine \<Rightarrow> real" where
  "spec_fragmentation_ratio m =
     (let st = s_mem_state m
      in if heap_end m - heap_start m - heap_used st = 0 \<or> alloc_count st = 0 then 0
         else if alloc_count st - free_count st > free_count st + 5 then
           min 1 (real (unat (alloc_count st - free_count st)) / real MAX_HEAP_ALLOCATIONS)
         else 0)"

subsection \<open>Concrete machines\<close>

text \<open>A board after reset: stack pointer \<open>0x08F0\<close>, heap never used, SRAM full of sentinels.\<close>

definition base_machine :: machine where
  "base_machine =
     \<lparr>s_alloc_table = replicate 32 zero_entry, s_mem_state = zero_state,
      SREG = 0x80, SPL = 0xF0, SPH = 0x08, brkval = 0, heap_start = 0x0200,
      data_start = 0x0100, data_end = 0x0180, bss_start = 0x0180, bss_end = 0x0200,
      ram = (\<lambda>a. 0xAA)\<rparr>"

text \<open>Thirty-two live allocations of four bytes each: every slot of the table is active.\<close>

definition full_machine :: machine where
  "full_machine = base_machine
     \<lparr>s_alloc_table := map (\<lambda>i. \<lparr>ptr = 0x0200 + 4 * of_nat i, size_e = 4, active = 1\<rparr>) [0..<32],
      s_mem_state := zero_state\<lparr>heap_used := 128, heap_total_allocated := 128,
        alloc_count := 32\<rparr>,
      brkval := 0x0280\<rparr>"

text \<open>One block of eight bytes at \<open>0x0300\<close> was allocated and has been freed again.\<close>

definition freed_machine :: machine where
  "freed_machine = base_machine
     \<lparr>s_alloc_table := (replicate 32 zero_entry)[0 := \<lparr>ptr = 0x0300, size_e = 8, active = 0\<rparr>],
      s_mem_state := zero_state\<lparr>heap_total_allocated := 8, heap_total_freed := 8,
        alloc_count := 1, free_count := 1\<rparr>,
      brkval := 0x0308\<rparr>"

text \<open>The stack pointer \<open>0x04F0\<close> has sunk below the heap end \<open>0x0500\<close>.\<close>

definition collided_machine :: machine where
  "collided_machine = base_machine\<lparr>SPL := 0xF0, SPH := 0x04, brkval := 0x0500\<rparr>"

text \<open>Ten allocations of eight bytes, three of them freed; the heap reaches \<open>0x0300\<close>.\<close>

definition churn_machine :: machine where
  "churn_machine = base_machine
     \<lparr>s_alloc_table :=
        map (\<lambda>i. \<lparr>ptr = 0x0200 + 8 * of_nat i, size_e = 8,
                   active = (if i < 7 then 1 else 0)\<rparr>) [0..<32],
      s_mem_state := zero_state\<lparr>heap_used := 56, heap_total_allocated := 80,
        heap_total_freed := 24, alloc_count := 10, free_count := 3\<rparr>,
      brkval := 0x0300\<rparr>"

text \<open>
  A small monitored gap: the heap ends at \<open>0x08F0\<close>, sixteen bytes below \<open>RAMEND\<close>, and is
  followed by sentinels only.
\<close>

definition gap_machine :: machine where
  "gap_machine = base_machine\<lparr>brkval := 0x08F0, SPL := 0xFF, SPH := 0x08\<rparr>"

definition gap_events :: "stack_event list" where
  "gap_events =
     [MoveSP 0x08F9, StackWrite 0x08FA 0x11, Rescan,
      MoveSP 0x08F5, StackWrite 0x08F6 0x22, MoveSP 0x08FF, Rescan,
      StackWrite 0x08FC 0x33, MoveSP 0x08FB]"

definition blank_stats :: MemoryStats where
  "blank_stats =
     \<lparr>stats_total_sram = 0, stats_static_data = 0, stats_static_bss = 0, stats_heap_used = 0,
      stats_heap_total_allocated = 0, stats_heap_total_freed = 0, stats_alloc_count = 0,
      stats_free_count = 0, stats_current_stack_usage = 0, stats_max_stack_usage = 0,
      stats_free_ram = 0, stats_fragmentation_ratio = 0, stats_collision_warning = 0\<rparr>"

section \<open>Stack pointer access: properties\<close>

lemma gsp_run_body:
  "gsp_run gsp_body l m =
     ([(SaveSREG, m), (CLI, m), (LoadSPL, cli m), (LoadSPH, cli m), (RestoreSREG, cli m)],
      l\<lparr>l_sreg := SREG m, l_sp := read_SP m\<rparr>, m)"
  by (simp add: gsp_body_def cli_def read_SP_def Let_def)

lemma get_sp_eq: "snd (mem_monitor_get_stack_pointer m) = (read_SP m, m)"
  by (simp add: mem_monitor_get_stack_pointer_def gsp_run_body)

lemma get_sp_trace:
  "fst (mem_monitor_get_stack_pointer m) =
     [(SaveSREG, m), (CLI, m), (LoadSPL, cli m), (LoadSPH, cli m), (RestoreSREG, cli m)]"
  by (simp add: mem_monitor_get_stack_pointer_def gsp_run_body)

lemma cli_disables: "\<not> interrupts_enabled (cli m)"
  by (simp add: cli_def interrupts_enabled_def bit_unset_bit_iff)

lemma read_with_sp: "read_SP (with_sp m sp) = sp"
proof -
  have "ucast (ucast sp :: u8) OR push_bit 8 (ucast (ucast (drop_bit 8 sp) :: u8)) = sp"
    by (rule bit_word_eqI) (auto simp add: bit_simps)
  then show ?thesis by (simp add: read_SP_def with_sp_def Let_def)
qed

text \<open>
  Claim C8. The body of \<open>mem_monitor_get_stack_pointer\<close> executes, in this order: the save
  of \<open>SREG\<close> and \<open>cli\<close>, both in the caller's interrupt state; then the reads of \<open>SPL\<close> and
  \<open>SPH\<close> and the write to \<open>SREG\<close>, all three with the interrupt enable flag cleared. So
  interrupt delivery is off from \<open>cli\<close> until \<open>SREG\<close> is written back, which covers both reads.
  On return \<open>SREG\<close> holds the value it had before the call: the flag is restored, not set,
  so a caller that had interrupts disabled still has them disabled. The value returned is
  the content of \<open>SPH:SPL\<close>, and nothing else of the machine changes.
\<close>

theorem stack_pointer_read_restores_SREG:
  "map (\<lambda>(op, s). (op, interrupts_enabled s)) (fst (mem_monitor_get_stack_pointer m)) =
     [(SaveSREG, interrupts_enabled m), (CLI, interrupts_enabled m),
      (LoadSPL, False), (LoadSPH, False), (RestoreSREG, False)] \<and>
   fst (snd (mem_monitor_get_stack_pointer m)) = read_SP m \<and>
   SREG (snd (snd (mem_monitor_get_stack_pointer m))) = SREG m \<and>
   interrupts_enabled (snd (snd (mem_monitor_get_stack_pointer m))) = interrupts_enabled m \<and>
   snd (snd (mem_monitor_get_stack_pointer m)) = m"
  by (simp add: get_sp_eq get_sp_trace cli_disables)

text \<open>
  Claim C10. \<open>mem_monitor_get_free_stack_space\<close> returns the stack pointer minus the heap
  end when the stack pointer is strictly above the heap end, and 0 otherwise. The
  subtraction never wraps: read as integers, the result is the difference cut off at 0.
\<close>

theorem free_stack_space_clamped:
  "fst (mem_monitor_get_free_stack_space m) =
     (if read_SP m > heap_end m then read_SP m - heap_end m else 0) \<and>
   uint (fst (mem_monitor_get_free_stack_space m)) =
     max 0 (uint (read_SP m) - uint (heap_end m))"
proof -
  have v: "fst (mem_monitor_get_free_stack_space m) =
     (if read_SP m > heap_end m then read_SP m - heap_end m else 0)"
    by (simp add: mem_monitor_get_free_stack_space_def get_sp_eq Let_def)
  have "uint (if read_SP m > heap_end m then read_SP m - heap_end m else 0) =
     max 0 (uint (read_SP m) - uint (heap_end m))"
    by (simp; uint_arith)
  with v show ?thesis by simp
qed

section \<open>Collision detection: properties\<close>

lemma check_collision_state:
  "snd (mem_monitor_check_collision m) =
     m\<lparr>s_mem_state := (s_mem_state m)\<lparr>collision_warning := fst (mem_monitor_check_collision m)\<rparr>\<rparr>"
  by (simp add: mem_monitor_check_collision_def get_sp_eq Let_def)

text \<open>
  The verdict is taken on the 16-bit difference. While the stack pointer is at or above
  the heap end, that is the distance between the two, and the boundary lies between a
  gap of 127 and a gap of 128.
\<close>

lemma check_collision_verdict:
  "fst (mem_monitor_check_collision m) = (if read_SP m - heap_end m < 128 then 1 else 0)"
  by (simp add: mem_monitor_check_collision_def get_sp_eq Let_def COLLISION_SAFETY_MARGIN_def)

lemma check_collision_above_heap:
  assumes "heap_end m \<le> read_SP m"
  shows "fst (mem_monitor_check_collision m) =
     (if uint (read_SP m) - uint (heap_end m) < 128 then 1 else 0)"
proof -
  from assms have "(read_SP m - heap_end m < 128) = (uint (read_SP m) - uint (heap_end m) < 128)"
    by uint_arith
  then show ?thesis by (simp add: check_collision_verdict)
qed

lemma check_collision_gap_127:
  "fst (mem_monitor_check_collision (with_sp m (heap_end m + 127))) = 1"
proof -
  have "heap_end (with_sp m (heap_end m + 127)) = heap_end m"
    by (simp add: heap_end_def with_sp_def)
  then show ?thesis by (simp add: check_collision_verdict read_with_sp)
qed

lemma check_collision_gap_128:
  "fst (mem_monitor_check_collision (with_sp m (heap_end m + 128))) = 0"
proof -
  have "heap_end (with_sp m (heap_end m + 128)) = heap_end m"
    by (simp add: heap_end_def with_sp_def)
  then show ?thesis by (simp add: check_collision_verdict read_with_sp)
qed

text \<open>
  Below the heap end the 16-bit difference wraps around: unless the stack pointer lies more
  than 65408 bytes below the heap end, the verdict is 0.
\<close>

lemma check_collision_below_heap:
  assumes "read_SP m < heap_end m" and "uint (heap_end m) - uint (read_SP m) \<le> 65408"
  shows "fst (mem_monitor_check_collision m) = 0"
proof -
  define d where "d = uint (read_SP m) - uint (heap_end m)"
  from assms have neg: "d < 0" and low: "- 65408 \<le> d"
    by (simp_all add: d_def word_less_def)
  have "uint (read_SP m - heap_end m) = d mod 65536"
    by (simp add: d_def uint_word_ariths)
  also have "\<dots> = (d + 65536) mod 65536"
    by simp
  also from neg low have "\<dots> = d + 65536"
    by (intro mod_pos_pos_trivial) simp_all
  finally have "128 \<le> uint (read_SP m - heap_end m)"
    using low by simp
  then have "\<not> read_SP m - heap_end m < 128"
    by (simp add: word_less_def)
  then show ?thesis
    by (simp add: check_collision_verdict)
qed

lemma collided_registers:
  "read_SP collided_machine = 0x04F0 \<and> heap_end collided_machine = 0x0500"
  by (simp add: collided_machine_def base_machine_def read_SP_def heap_end_def)

text \<open>
  Claim C3. The verdict is meant to be true exactly when the stack top minus the top of
  the dynamic region is less than 128. With the stack pointer at \<open>0x04F0\<close> and the heap end
  at \<open>0x0500\<close> the stack top lies 16 bytes below the heap end; the unguarded 16-bit
  subtraction yields 65520, the function returns 0 and clears the warning.
  \<open>mem_monitor_get_free_stack_space\<close> guards the same subtraction and reports 0 free bytes
  in this state.
\<close>

theorem check_collision_misses_collided_stack:
  "read_SP collided_machine = 0x04F0 \<and> heap_end collided_machine = 0x0500 \<and>
   uint (read_SP collided_machine) - uint (heap_end collided_machine) = - 16 \<and>
   fst (mem_monitor_check_collision collided_machine) = 0 \<and>
   collision_warning (s_mem_state (snd (mem_monitor_check_collision collided_machine))) = 0 \<and>
   fst (mem_monitor_get_free_stack_space collided_machine) = 0"
  by (simp add: collided_registers check_collision_verdict check_collision_state
      mem_monitor_get_free_stack_space_def get_sp_eq)

text \<open>
  Claim C9. After a call of \<open>mem_monitor_check_collision\<close> the stored \<open>collision_warning\<close>
  is the verdict the call returned, and the verdict does not depend on the value the flag
  had before: every call overwrites the previous verdict.
\<close>

theorem collision_flag_is_last_verdict:
  "collision_warning (s_mem_state (snd (mem_monitor_check_collision m))) =
     fst (mem_monitor_check_collision m) \<and>
   fst (mem_monitor_check_collision (m\<lparr>s_mem_state := (s_mem_state m)\<lparr>collision_warning := w\<rparr>\<rparr>)) =
     fst (mem_monitor_check_collision m)"
  by (simp add: check_collision_state) (simp add: check_collision_verdict read_SP_def heap_end_def)

section \<open>Heap analysis: properties\<close>

text \<open>
  With ten allocations and three frees the source reports \<open>7 / 32\<close>, since \<open>10 > 3 + 5\<close>;
  the comparison of \<open>allocate_count - free_count\<close> with \<open>free_count + 5\<close> gives \<open>7 > 8\<close> and
  therefore 0.
\<close>

theorem fragmentation_differs_from_spec_wording:
  "mem_monitor_get_fragmentation_ratio churn_machine = 7 / 32 \<and>
   spec_fragmentation_ratio churn_machine = 0"
  by (simp add: mem_monitor_get_fragmentation_ratio_def spec_fragmentation_ratio_def
      churn_machine_def base_machine_def zero_state_def heap_end_def MAX_HEAP_ALLOCATIONS_def)

text \<open>
  Claim C4, as the source has it. The ratio is 0 when no dynamic-region space is free or
  no allocation has been counted; otherwise, if \<open>alloc_count > free_count + 5\<close>, it is
  \<open>(alloc_count - free_count) / 32\<close> clamped to 1, and 0 if not. With 10 allocations and 2
  frees it is 0.25 (given free space), with 6 allocations and 3 frees it is 0.
\<close>

theorem fragmentation_ratio_policy:
  "mem_monitor_get_fragmentation_ratio m =
     (if heap_end m - heap_start m - heap_used (s_mem_state m) = 0
         \<or> alloc_count (s_mem_state m) = 0 then 0
      else if alloc_count (s_mem_state m) > free_count (s_mem_state m) + 5 then
        min 1 (real (unat (alloc_count (s_mem_state m) - free_count (s_mem_state m))) / 32)
      else 0) \<and>
   mem_monitor_get_fragmentation_ratio
       (m\<lparr>s_mem_state := (s_mem_state m)\<lparr>alloc_count := 10, free_count := 2\<rparr>\<rparr>) =
     (if heap_end m - heap_start m - heap_used (s_mem_state m) = 0 then 0 else 0.25) \<and>
   mem_monitor_get_fragmentation_ratio
       (m\<lparr>s_mem_state := (s_mem_state m)\<lparr>alloc_count := 6, free_count := 3\<rparr>\<rparr>) = 0"
  by (simp add: mem_monitor_get_fragmentation_ratio_def heap_end_def MAX_HEAP_ALLOCATIONS_def
      Let_def min_def)

section \<open>Heap tracking: properties\<close>

lemma track_alloc_loop_full:
  "\<forall>j. i \<le> j \<and> j < MAX_HEAP_ALLOCATIONS \<longrightarrow> active (s_alloc_table m ! j) \<noteq> 0
   \<Longrightarrow> track_alloc_loop m p sz i = m"
proof (induction m p sz i rule: track_alloc_loop.induct)
  case (1 m p sz i)
  show ?case
  proof (cases "i < MAX_HEAP_ALLOCATIONS")
    case True
    with "1.prems" have act: "active (s_alloc_table m ! i) \<noteq> 0"
      by simp
    from "1.prems"
    have "\<forall>j. i + 1 \<le> j \<and> j < MAX_HEAP_ALLOCATIONS \<longrightarrow> active (s_alloc_table m ! j) \<noteq> 0"
      by simp
    with "1.IH" True act have "track_alloc_loop m p sz (i + 1) = m"
      by simp
    with True act show ?thesis
      by (subst track_alloc_loop.simps) simp
  next
    case False
    then show ?thesis
      by (subst track_alloc_loop.simps) simp
  qed
qed

lemma track_free_loop_untracked:
  "\<forall>j. i \<le> j \<and> j < MAX_HEAP_ALLOCATIONS \<longrightarrow>
      \<not> (active (s_alloc_table m ! j) \<noteq> 0 \<and> ptr (s_alloc_table m ! j) = p)
   \<Longrightarrow> track_free_loop m p i = m"
proof (induction m p i rule: track_free_loop.induct)
  case (1 m p i)
  show ?case
  proof (cases "i < MAX_HEAP_ALLOCATIONS")
    case True
    with "1.prems"
    have miss: "\<not> (active (s_alloc_table m ! i) \<noteq> 0 \<and> ptr (s_alloc_table m ! i) = p)"
      by simp
    from "1.prems"
    have "\<forall>j. i + 1 \<le> j \<and> j < MAX_HEAP_ALLOCATIONS \<longrightarrow>
       \<not> (active (s_alloc_table m ! j) \<noteq> 0 \<and> ptr (s_alloc_table m ! j) = p)"
      by simp
    with "1.IH" True miss have "track_free_loop m p (i + 1) = m"
      by simp
    with True miss show ?thesis
      by (subst track_free_loop.simps) auto
  next
    case False
    then show ?thesis
      by (subst track_free_loop.simps) simp
  qed
qed

lemma track_alloc_full: "table_full m \<Longrightarrow> mem_monitor_track_alloc m p sz = m"
  by (simp add: mem_monitor_track_alloc_def table_full_def list_all_iff is_active_def
      track_alloc_loop_full)

lemma track_free_untracked: "\<not> is_tracked m p \<Longrightarrow> mem_monitor_track_free m p = m"
  by (simp add: mem_monitor_track_free_def is_tracked_def list_ex_iff is_active_def
      track_free_loop_untracked)

lemma full_machine_full: "table_full full_machine"
  by (simp add: table_full_def full_machine_def list_all_iff is_active_def
      MAX_HEAP_ALLOCATIONS_def)

lemma freed_machine_untracked: "\<not> is_tracked freed_machine 0x0300"
  by (auto simp add: is_tracked_def freed_machine_def list_ex_iff is_active_def
      MAX_HEAP_ALLOCATIONS_def zero_entry_def nth_list_update)

text \<open>
  Claim C7. When every slot of the table is active, \<open>mem_monitor_track_alloc\<close> leaves the
  table (each slot's \<open>ptr\<close>, \<open>size\<close> and \<open>active\<close>) and all counters as they were; the whole
  machine state is unchanged.
\<close>

theorem saturation_leaves_state_unchanged:
  assumes "table_full m"
  shows "s_alloc_table (mem_monitor_track_alloc m p sz) = s_alloc_table m \<and>
         s_mem_state (mem_monitor_track_alloc m p sz) = s_mem_state m \<and>
         mem_monitor_track_alloc m p sz = m"
  using assms by (simp add: track_alloc_full)

theorem saturation_leaves_state_unchanged_witness:
  "table_full full_machine \<and>
   s_alloc_table (mem_monitor_track_alloc full_machine 0x0300 8) = s_alloc_table full_machine \<and>
   s_mem_state (mem_monitor_track_alloc full_machine 0x0300 8) = s_mem_state full_machine"
  using saturation_leaves_state_unchanged [OF full_machine_full, of "0x0300" 8]
  by (simp add: full_machine_full)

text \<open>
  The source keeps no saturation counter. An allocation of 8 bytes at \<open>0x0300\<close> arriving at
  a full table leaves the machine exactly as it was, and the report taken afterwards is
  the report taken before.
\<close>

theorem rejected_alloc_leaves_no_trace:
  "table_full full_machine \<and>
   mem_monitor_track_alloc full_machine 0x0300 8 = full_machine \<and>
   mem_monitor_get_stats (mem_monitor_track_alloc full_machine 0x0300 8) (Some blank_stats) =
     mem_monitor_get_stats full_machine (Some blank_stats)"
  by (simp add: full_machine_full track_alloc_full)

text \<open>
  Claim C5, as the source has it. When every slot of the table is active, a call of
  \<open>mem_monitor_track_alloc\<close> is dropped without a trace: no counter changes and the report
  produced afterwards equals the report produced before the call.
\<close>

theorem saturation_is_silent:
  assumes "table_full m"
  shows "s_mem_state (mem_monitor_track_alloc m p sz) = s_mem_state m \<and>
         mem_monitor_get_stats (mem_monitor_track_alloc m p sz) r = mem_monitor_get_stats m r"
  using assms by (simp add: track_alloc_full)

theorem saturation_is_silent_witness:
  "table_full full_machine \<and>
   s_mem_state (mem_monitor_track_alloc full_machine 0x0300 8) = s_mem_state full_machine \<and>
   fst (mem_monitor_get_stats (mem_monitor_track_alloc full_machine 0x0300 8) (Some blank_stats)) =
     fst (mem_monitor_get_stats full_machine (Some blank_stats))"
  using saturation_is_silent [OF full_machine_full, of "0x0300" 8 "Some blank_stats"]
  by (simp add: full_machine_full)

text \<open>
  The source keeps no anomaly counter. Freeing the block at \<open>0x0300\<close> a second time leaves
  the machine exactly as it was.
\<close>

theorem double_free_leaves_no_trace:
  "\<not> is_tracked freed_machine 0x0300 \<and>
   mem_monitor_track_free freed_machine 0x0300 = freed_machine"
  by (simp add: freed_machine_untracked track_free_untracked)

text \<open>
  Claim C6, as the source has it. \<open>mem_monitor_track_free\<close> with a null address changes
  nothing, and with an address that no active slot records it changes nothing either:
  the byte totals, the counts and the table stay as they were, and neither case is counted
  anywhere.
\<close>

theorem free_anomaly_is_noop:
  "mem_monitor_track_free m 0 = m \<and>
   (\<not> is_tracked m p \<longrightarrow> mem_monitor_track_free m p = m)"
  by (simp add: track_free_untracked) (simp add: mem_monitor_track_free_def)

theorem free_anomaly_is_noop_witness:
  "\<not> is_tracked freed_machine 0x0300 \<and>
   mem_monitor_track_free freed_machine 0 = freed_machine \<and>
   mem_monitor_track_free freed_machine 0x0300 = freed_machine"
  using free_anomaly_is_noop [of freed_machine "0x0300"]
  by (simp add: freed_machine_untracked)

subsection \<open>The ledger invariant\<close>

lemma filter_update_activate:
  "i < length xs \<Longrightarrow> \<not> P (xs ! i) \<Longrightarrow> P y \<Longrightarrow>
   length (filter P (xs[i := y])) = Suc (length (filter P xs))"
proof (induction xs arbitrary: i)
  case Nil
  then show ?case by simp
next
  case (Cons x xs)
  then show ?case by (cases i) auto
qed

lemma filter_update_release:
  "i < length xs \<Longrightarrow> P (xs ! i) \<Longrightarrow> \<not> P y \<Longrightarrow>
   Suc (length (filter P (xs[i := y]))) = length (filter P xs)"
proof (induction xs arbitrary: i)
  case Nil
  then show ?case by simp
next
  case (Cons x xs)
  then show ?case by (cases i) auto
qed

lemma sum_update_activate:
  fixes f :: "'a \<Rightarrow> u16"
  shows "i < length xs \<Longrightarrow> \<not> P (xs ! i) \<Longrightarrow> P y \<Longrightarrow>
   sum_list (map f (filter P (xs[i := y]))) = sum_list (map f (filter P xs)) + f y"
proof (induction xs arbitrary: i)
  case Nil
  then show ?case by simp
next
  case (Cons x xs)
  then show ?case by (cases i) auto
qed

lemma sum_update_release:
  fixes f :: "'a \<Rightarrow> u16"
  shows "i < length xs \<Longrightarrow> P (xs ! i) \<Longrightarrow> \<not> P y \<Longrightarrow>
   sum_list (map f (filter P (xs[i := y]))) = sum_list (map f (filter P xs)) - f (xs ! i)"
proof (induction xs arbitrary: i)
  case Nil
  then show ?case by simp
next
  case (Cons x xs)
  then show ?case by (cases i) auto
qed

lemma ledger_ok_alloc_loop: "ledger_ok m \<Longrightarrow> ledger_ok (track_alloc_loop m p sz i)"
proof (induction m p sz i rule: track_alloc_loop.induct)
  case (1 m p sz i)
  show ?case
  proof (cases "i < MAX_HEAP_ALLOCATIONS")
    case False
    with "1.prems" show ?thesis
      by (subst track_alloc_loop.simps) simp
  next
    case True
    show ?thesis
    proof (cases "active (s_alloc_table m ! i) = 0")
      case False
      with True "1.IH" "1.prems" show ?thesis
        by (subst track_alloc_loop.simps) simp
    next
      case free: True
      from "1.prems" True have len: "i < length (s_alloc_table m)"
        by (simp add: ledger_ok_def Let_def)
      have inact: "\<not> is_active (s_alloc_table m ! i)"
        using free by (simp add: is_active_def)
      have act: "is_active ((s_alloc_table m ! i)\<lparr>ptr := p, size_e := sz, active := 1\<rparr>)"
        by (simp add: is_active_def)
      note n = filter_update_activate [OF len inact act]
      note b = sum_update_activate [OF len inact act, of size_e]
      from "1.prems" True free show ?thesis
        by (subst track_alloc_loop.simps)
          (simp add: ledger_ok_def Let_def active_slots_def active_bytes_def n b)
    qed
  qed
qed

lemma ledger_ok_free_loop: "ledger_ok m \<Longrightarrow> ledger_ok (track_free_loop m p i)"
proof (induction m p i rule: track_free_loop.induct)
  case (1 m p i)
  show ?case
  proof (cases "i < MAX_HEAP_ALLOCATIONS")
    case False
    with "1.prems" show ?thesis
      by (subst track_free_loop.simps) simp
  next
    case True
    show ?thesis
    proof (cases "active (s_alloc_table m ! i) \<noteq> 0 \<and> ptr (s_alloc_table m ! i) = p")
      case False
      with True "1.IH" "1.prems" show ?thesis
        by (subst track_free_loop.simps) auto
    next
      case hit: True
      from "1.prems" True have len: "i < length (s_alloc_table m)"
        by (simp add: ledger_ok_def Let_def)
      have act: "is_active (s_alloc_table m ! i)"
        using hit by (simp add: is_active_def)
      have inact: "\<not> is_active ((s_alloc_table m ! i)\<lparr>active := 0\<rparr>)"
        by (simp add: is_active_def)
      note n = filter_update_release [OF len act inact]
      note b = sum_update_release [OF len act inact, of size_e]
      have pos: "of_nat (length (filter is_active
                   ((s_alloc_table m)[i := (s_alloc_table m ! i)\<lparr>active := 0\<rparr>])))
          = (of_nat (length (filter is_active (s_alloc_table m))) :: u16) - 1"
        using n by (metis add_diff_cancel_left' of_nat_Suc)
      from "1.prems" True hit show ?thesis
        by (subst track_free_loop.simps)
          (simp add: ledger_ok_def Let_def active_slots_def active_bytes_def pos b)
    qed
  qed
qed

lemma ledger_ok_init: "ledger_ok (mem_monitor_init m)"
  by (simp add: ledger_ok_def mem_monitor_init_def get_sp_eq Let_def active_slots_def
      active_bytes_def is_active_def zero_entry_def zero_state_def)

lemma ledger_ok_step: "ledger_ok m \<Longrightarrow> ledger_ok (ledger_step c m)"
  by (cases c)
    (simp_all add: mem_monitor_track_alloc_def mem_monitor_track_free_def
      ledger_ok_alloc_loop ledger_ok_free_loop)

lemma ledger_ok_run: "ledger_ok m \<Longrightarrow> ledger_ok (run_ledger cs m)"
  by (induction cs arbitrary: m) (simp_all add: ledger_ok_step)

lemma ledger_ok_count:
  assumes "ledger_ok m"
  shows "active_slots m = unat (alloc_count (s_mem_state m) - free_count (s_mem_state m))"
proof -
  from assms have len: "length (s_alloc_table m) = MAX_HEAP_ALLOCATIONS"
    and eq: "of_nat (active_slots m) = alloc_count (s_mem_state m) - free_count (s_mem_state m)"
    by (simp_all add: ledger_ok_def Let_def)
  have "active_slots m \<le> length (s_alloc_table m)"
    by (simp add: active_slots_def)
  with len have "active_slots m < 2 ^ LENGTH(16)"
    by (simp add: MAX_HEAP_ALLOCATIONS_def)
  with eq show ?thesis
    by (simp add: of_nat_inverse)
qed

text \<open>
  Claim C1. After any number of calls of a sequence of \<open>mem_monitor_track_alloc\<close> and
  \<open>mem_monitor_track_free\<close> calls following initialization, \<open>heap_used\<close> equals
  \<open>heap_total_allocated - heap_total_freed\<close> (in the counters' 16-bit arithmetic), the
  number of active slots equals \<open>alloc_count - free_count\<close>, and the sizes of the active
  slots add up to \<open>heap_used\<close>. A rejected allocation changes nothing, so the sequence
  need not be free of saturation.
\<close>

theorem ledger_conservation:
  "heap_used (s_mem_state (run_ledger (take n calls) (mem_monitor_init m))) =
     heap_total_allocated (s_mem_state (run_ledger (take n calls) (mem_monitor_init m)))
       - heap_total_freed (s_mem_state (run_ledger (take n calls) (mem_monitor_init m))) \<and>
   active_slots (run_ledger (take n calls) (mem_monitor_init m)) =
     unat (alloc_count (s_mem_state (run_ledger (take n calls) (mem_monitor_init m)))
       - free_count (s_mem_state (run_ledger (take n calls) (mem_monitor_init m)))) \<and>
   active_bytes (run_ledger (take n calls) (mem_monitor_init m)) =
     heap_used (s_mem_state (run_ledger (take n calls) (mem_monitor_init m)))"
proof -
  have ok: "ledger_ok (run_ledger (take n calls) (mem_monitor_init m))"
    by (rule ledger_ok_run [OF ledger_ok_init])
  then show ?thesis
    using ledger_ok_count [OF ok] by (simp add: ledger_ok_def Let_def)
qed

section \<open>Stack monitoring: properties\<close>



















text \<open>The same run, evaluated step by step.\<close>

lemma gap_run_direct: "hwm (run_stack (gap_events @ [Rescan]) gap_machine) = 9"
  by (simp add: gap_events_def gap_machine_def base_machine_def zero_state_def with_sp_def
    mem_monitor_update_def scan_stack_usage_def heap_end_def check_collision_state Let_def
      scan_loop.simps RAMEND_def STACK_SENTINEL_def)

end
